theory Spec2Isabelle
  imports Complex_Main "HOL-Library.Multiset" "HOL-Library.Log_Nat"
begin

section \<open>Python values\<close>

text \<open>
  The dashboard is one Python module, \<^verbatim>\<open>dashboard.py\<close>. Its functions are embedded as HOL
  functions of the same names. A Python \<^verbatim>\<open>str\<close> is a \<open>string\<close> with one \<open>char\<close> per code
  point, so the model covers the strings whose code points lie below 256 (ASCII and the
  Latin-1 supplement). An exception is a value of \<open>exn\<close>, returned on the left of a sum.
\<close>

datatype exn = ValueError | KeyError string | TypeError | HTTPError string | RequestException string

definition bind :: "exn + 'a \<Rightarrow> ('a \<Rightarrow> exn + 'b) \<Rightarrow> exn + 'b" where
  "bind m f = (case m of Inl e \<Rightarrow> Inl e | Inr x \<Rightarrow> f x)"

subsection \<open>Strings\<close>

text \<open>
  \<^verbatim>\<open>str.isspace\<close>, \<^verbatim>\<open>str.isdecimal\<close> and \<^verbatim>\<open>str.isdigit\<close> on one character, by code point.
  Below 256 the white space characters are U+0009 to U+000D, U+001C to U+0020, U+0085 and
  U+00A0; the decimal digits are \<open>0\<close> to \<open>9\<close>; \<^verbatim>\<open>isdigit\<close> holds for the decimal digits
  and for the superscript digits U+00B2, U+00B3 and U+00B9.
\<close>

definition isspace :: "char \<Rightarrow> bool" where
  "isspace c = (of_char c \<in> {9, 10, 11, 12, 13, 28, 29, 30, 31, 32, 133, 160 :: nat})"

definition isdecimal :: "char \<Rightarrow> bool" where
  "isdecimal c = (48 \<le> (of_char c :: nat) \<and> (of_char c :: nat) \<le> 57)"

definition isdigit :: "char \<Rightarrow> bool" where
  "isdigit c = (isdecimal c \<or> of_char c \<in> {178, 179, 185 :: nat})"

text \<open>\<^verbatim>\<open>s.isdigit()\<close>: false on the empty string.\<close>

definition str_isdigit :: "string \<Rightarrow> bool" where
  "str_isdigit s = (s \<noteq> [] \<and> list_all isdigit s)"

definition str_isdecimal :: "string \<Rightarrow> bool" where
  "str_isdecimal s = (s \<noteq> [] \<and> list_all isdecimal s)"

text \<open>\<^verbatim>\<open>s.strip()\<close>, \<^verbatim>\<open>s.replace(a, b)\<close> for one-character \<open>a\<close> and \<open>b\<close>, and \<^verbatim>\<open>s.split(sep)\<close>
  for a one-character separator (the result is never empty: \<^verbatim>\<open>"".split(",") == [""]\<close>).\<close>

definition strip :: "string \<Rightarrow> string" where
  "strip s = rev (dropWhile isspace (rev (dropWhile isspace s)))"

definition replace_char :: "char \<Rightarrow> char \<Rightarrow> string \<Rightarrow> string" where
  "replace_char a b s = map (\<lambda>c. if c = a then b else c) s"

fun split :: "char \<Rightarrow> string \<Rightarrow> string list" where
  "split sep [] = [[]]"
| "split sep (c # cs) =
     (if c = sep then [] # split sep cs
      else (case split sep cs of [] \<Rightarrow> [[c]] | t # ts \<Rightarrow> (c # t) # ts))"

text \<open>\<^verbatim>\<open>str(n)\<close> for an integer: its decimal digits, with a minus sign when negative.\<close>

function str_nat :: "nat \<Rightarrow> string" where
  "str_nat n =
     (if n < 10 then [char_of (48 + n)] else str_nat (n div 10) @ [char_of (48 + n mod 10)])"
  by pat_completeness auto
termination
  by (relation "measure id") auto

declare str_nat.simps [simp del]

definition str_int :: "int \<Rightarrow> string" where
  "str_int i = (if i < 0 then CHR ''-'' # str_nat (nat (- i)) else str_nat (nat i))"

subsection \<open>\<^verbatim>\<open>int(s)\<close> on a string\<close>

text \<open>
  \<^verbatim>\<open>int(s)\<close> skips white space on both sides (U+0009 to U+000D, the space, U+0085, U+00A0;
  not U+001C to U+001F), reads an optional sign and then decimal digits, where single
  underscores may stand between digits. Anything else raises \<^verbatim>\<open>ValueError\<close>. So does a
  literal of more than \<open>max_str_digits\<close> digits when that limit is not 0
  (\<^verbatim>\<open>sys.get_int_max_str_digits()\<close>, 4300 unless configured; the interpreter checks it for
  literals of more than 640 digits).
\<close>

definition int_space :: "char \<Rightarrow> bool" where
  "int_space c = (of_char c \<in> {9, 10, 11, 12, 13, 32, 133, 160 :: nat})"

definition digit_val :: "char \<Rightarrow> int" where
  "digit_val c = int (of_char c) - 48"

definition digits_val :: "string \<Rightarrow> int" where
  "digits_val ds = foldl (\<lambda>a c. 10 * a + digit_val c) 0 ds"

fun no_double_underscore :: "string \<Rightarrow> bool" where
  "no_double_underscore (a # b # cs) =
     (\<not> (a = CHR ''_'' \<and> b = CHR ''_'') \<and> no_double_underscore (b # cs))"
| "no_double_underscore cs = True"

definition literal_char :: "char \<Rightarrow> bool" where
  "literal_char c = (isdecimal c \<or> c = CHR ''_'')"

definition py_int :: "nat \<Rightarrow> string \<Rightarrow> exn + int" where
  "py_int max_str_digits s =
     (let t = dropWhile int_space s;
          neg = (t \<noteq> [] \<and> hd t = CHR ''-'');
          u = (if t \<noteq> [] \<and> (hd t = CHR ''-'' \<or> hd t = CHR ''+'') then tl t else t);
          body = takeWhile literal_char u;
          rest = dropWhile literal_char u;
          ds = filter isdecimal body
      in if body = [] \<or> hd body = CHR ''_'' \<or> last body = CHR ''_''
            \<or> \<not> no_double_underscore body \<or> dropWhile int_space rest \<noteq> []
         then Inl ValueError
         else if 0 < max_str_digits \<and> 640 < length ds \<and> max_str_digits < length ds
         then Inl ValueError
         else Inr (if neg then - digits_val ds else digits_val ds))"

section \<open>Identifiers\<close>

definition STEAM_EPOCH :: int where
  "STEAM_EPOCH = 76561197960265728"

text \<open>\<^verbatim>\<open>steam64_to_account_id\<close>: \<^verbatim>\<open>None\<close> when \<^verbatim>\<open>int\<close> raises \<^verbatim>\<open>ValueError\<close>, the only
  exception \<^verbatim>\<open>int\<close> raises on a string. The first argument is the interpreter's limit.\<close>

definition steam64_to_account_id :: "nat \<Rightarrow> string \<Rightarrow> int option" where
  "steam64_to_account_id max_str_digits steam64 =
     (case py_int max_str_digits steam64 of
        Inr v \<Rightarrow> Some (v - STEAM_EPOCH)
      | Inl e \<Rightarrow> None)"

definition normalize_ids :: "string \<Rightarrow> string list" where
  "normalize_ids raw_text =
     (let candidates = map strip (split (CHR '','') (replace_char (CHR 0x0A) (CHR '','') raw_text))
      in filter str_isdigit candidates)"

section \<open>Numbers\<close>

text \<open>
  A Python \<^verbatim>\<open>float\<close> is a binary64 number. The model holds its exact value as a \<open>real\<close>,
  and every floating-point operation rounds the exact result to the nearest binary64
  number, ties to the even significand (\<open>fl\<close>). Overflow to infinity is not modelled; the
  values of this program are counts, percentages and means of counts.
  \<open>rhe\<close> rounds to the nearest integer, ties to even; \<open>binexp x\<close> is the exponent \<open>e\<close> with
  \<open>2 ^ e \<le> \<bar>x\<bar> < 2 ^ (e + 1)\<close>; below \<open>2 ^ - 1022\<close> the spacing of binary64 stays
  \<open>2 ^ - 1074\<close>.
\<close>

definition pow2 :: "int \<Rightarrow> real" where
  "pow2 e = (if 0 \<le> e then 2 ^ nat e else 1 / 2 ^ nat (- e))"

definition rhe :: "real \<Rightarrow> int" where
  "rhe x =
     (let f = \<lfloor>x\<rfloor>; d = x - of_int f
      in if d < 1 / 2 then f else if 1 / 2 < d then f + 1 else if even f then f else f + 1)"

definition binexp :: "real \<Rightarrow> int" where
  "binexp x =
     (if 1 \<le> \<bar>x\<bar> then bitlen \<lfloor>\<bar>x\<bar>\<rfloor> - 1 else - bitlen (\<lceil>1 / \<bar>x\<bar>\<rceil> - 1))"

definition fl :: "real \<Rightarrow> real" where
  "fl x =
     (if x = 0 then 0
      else let q = pow2 (max (binexp x) (- 1022) - 52) in of_int (rhe (x / q)) * q)"

definition fdiv :: "real \<Rightarrow> real \<Rightarrow> real" where
  "fdiv a b = fl (a / b)"

definition fmul :: "real \<Rightarrow> real \<Rightarrow> real" where
  "fmul a b = fl (a * b)"

text \<open>A number is a Python \<^verbatim>\<open>int\<close> or a float.\<close>

datatype num = PyInt int | PyFloat real

fun num_val :: "num \<Rightarrow> real" where
  "num_val (PyInt i) = of_int i"
| "num_val (PyFloat x) = x"

text \<open>
  \<^verbatim>\<open>round(x, 1)\<close>. An \<^verbatim>\<open>int\<close> is returned as it is. For a Python \<^verbatim>\<open>float\<close> the result is
  the binary64 number nearest to the exact value of \<open>x\<close> rounded to one decimal (ties to
  even). The means of a pandas column are \<^verbatim>\<open>numpy.float64\<close>, whose \<^verbatim>\<open>__round__\<close> multiplies
  by ten, rounds to an integer and divides by ten, each step in binary64 (\<open>np_round1\<close>).
\<close>

fun py_round1 :: "num \<Rightarrow> num" where
  "py_round1 (PyInt i) = PyInt i"
| "py_round1 (PyFloat x) = PyFloat (fl (of_int (rhe (x * 10)) / 10))"

fun np_round1 :: "num \<Rightarrow> num" where
  "np_round1 (PyInt i) = PyInt i"
| "np_round1 (PyFloat x) = PyFloat (fdiv (of_int (rhe (fmul x 10))) 10)"

text \<open>\<^verbatim>\<open>Series.mean()\<close> of a column of integers (sums below \<open>2 ^ 53\<close> are exact in binary64),
  and \<^verbatim>\<open>Series.sum()\<close> of a column of booleans.\<close>

definition mean :: "int list \<Rightarrow> real" where
  "mean xs = fdiv (of_int (sum_list xs)) (of_nat (length xs))"

definition sum_bool :: "bool list \<Rightarrow> int" where
  "sum_bool bs = sum_list (map of_bool bs)"

section \<open>Frames\<close>

text \<open>
  A \<^verbatim>\<open>DataFrame\<close> has column labels and rows. \<^verbatim>\<open>df.empty\<close> holds when either axis has
  length 0; \<^verbatim>\<open>df[name]\<close> raises \<^verbatim>\<open>KeyError\<close> when \<open>name\<close> is not a column label.
\<close>

record 'r frame =
  columns :: "string list"
  rows :: "'r list"

definition empty :: "'r frame \<Rightarrow> bool" where
  "empty df = (columns df = [] \<or> rows df = [])"

definition column :: "'r frame \<Rightarrow> string \<Rightarrow> ('r \<Rightarrow> 'a) \<Rightarrow> exn + 'a list" where
  "column df name sel =
     (if name \<in> set (columns df) then Inr (map sel (rows df)) else Inl (KeyError name))"

text \<open>
  \<^verbatim>\<open>df.sort_values(by, ascending=...)\<close> asks numpy for the positions that sort the key column
  and takes the rows at these positions. The code passes no \<^verbatim>\<open>kind\<close>, so the sort is the
  library's default (\<^verbatim>\<open>quicksort\<close>), which pandas documents as not stable; the routine is
  not part of this repository and is a parameter \<open>argsort\<close> of the model: given the
  direction and the keys, it returns the positions in sorted order.
\<close>

definition take_rows :: "'r list \<Rightarrow> nat list \<Rightarrow> 'r list" where
  "take_rows rs positions = map (\<lambda>i. rs ! i) positions"

definition sort_values ::
  "(bool \<Rightarrow> 'k list \<Rightarrow> nat list) \<Rightarrow> 'r frame \<Rightarrow> string \<Rightarrow> ('r \<Rightarrow> 'k) \<Rightarrow> bool \<Rightarrow> exn + 'r frame" where
  "sort_values argsort df by key ascending =
     (if by \<in> set (columns df)
      then Inr (df\<lparr>rows := take_rows (rows df) (argsort ascending (map key (rows df)))\<rparr>)
      else Inl (KeyError by))"

section \<open>Matches\<close>

text \<open>One object of the remote API's JSON answer, and one row of the frame that
  \<^verbatim>\<open>fetch_matches\<close> returns (with the derived columns \<^verbatim>\<open>win\<close> and \<^verbatim>\<open>loss\<close>).\<close>

record raw_match =
  match_id :: int
  player_slot :: int
  radiant_win :: bool
  start_time :: int
  kills :: int
  deaths :: int
  assists :: int

record match = raw_match +
  win :: bool
  loss :: bool

definition raw_columns :: "string list" where
  "raw_columns =
     [''match_id'', ''player_slot'', ''radiant_win'', ''start_time'', ''kills'', ''deaths'',
      ''assists'']"

text \<open>
  The remote API: \<^verbatim>\<open>requests.get\<close> raises a \<^verbatim>\<open>RequestException\<close> (time-out, no connection),
  or \<^verbatim>\<open>raise_for_status\<close> raises an \<^verbatim>\<open>HTTPError\<close>, or the JSON answer is a list of matches.
  The five-minute cache in front of \<^verbatim>\<open>fetch_matches\<close> replays answers and is left out.
\<close>

datatype param = PInt int | PStr string

datatype reply = Failed string | BadStatus string | Json "raw_match list"

type_synonym remote = "int \<Rightarrow> (string \<times> param) list \<Rightarrow> reply"

definition with_outcome :: "raw_match \<Rightarrow> match" where
  "with_outcome r =
     (let w = ((player_slot r < 128) = radiant_win r)
      in \<lparr>match_id = match_id r, player_slot = player_slot r, radiant_win = radiant_win r,
          start_time = start_time r, kills = kills r, deaths = deaths r, assists = assists r,
          win = w, loss = \<not> w\<rparr>)"

text \<open>The query parameters: \<^verbatim>\<open>api_key\<close> is sent when it is neither \<^verbatim>\<open>None\<close> nor empty.\<close>

definition request_params :: "int \<Rightarrow> string option \<Rightarrow> (string \<times> param) list" where
  "request_params days api_key =
     [(''date'', PInt days), (''limit'', PInt 200)]
     @ (case api_key of
          None \<Rightarrow> []
        | Some k \<Rightarrow> if k \<noteq> [] then [(''api_key'', PStr k)] else [])"

definition fetch_matches :: "remote \<Rightarrow> int \<Rightarrow> int \<Rightarrow> string option \<Rightarrow> exn + match frame" where
  "fetch_matches remote account_id days api_key =
     (let params = request_params days api_key
      in case remote account_id params of
           Failed msg \<Rightarrow> Inl (RequestException msg)
         | BadStatus msg \<Rightarrow> Inl (HTTPError msg)
         | Json js \<Rightarrow>
             (let matches = \<lparr>columns = (if js = [] then [] else raw_columns), rows = js\<rparr>
              in if empty matches then Inr \<lparr>columns = columns matches, rows = []\<rparr>
                 else Inr \<lparr>columns = columns matches @ [''win'', ''loss''],
                          rows = map with_outcome (rows matches)\<rparr>))"

section \<open>Summaries\<close>

text \<open>A summary is the Python dict that \<^verbatim>\<open>summarize_matches\<close> returns: keys in insertion
  order, each with a string or a number. In a frame a cell can also be missing (\<^verbatim>\<open>NaN\<close>).\<close>

datatype cell = Str string | Num num | NaN

type_synonym row = "(string \<times> cell) list"

text \<open>The loop over \<^verbatim>\<open>sorted_wins\<close>, with the variables \<^verbatim>\<open>current\<close> and \<^verbatim>\<open>best_streak\<close>.\<close>

fun streak_loop :: "bool list \<Rightarrow> int \<Rightarrow> int \<Rightarrow> int" where
  "streak_loop [] current best_streak = best_streak"
| "streak_loop (result # rest) current best_streak =
     (if result then streak_loop rest (current + 1) (max best_streak (current + 1))
      else streak_loop rest 0 best_streak)"

text \<open>
  The best streak in the words of the specification: a counter scans the results, goes
  up by one on a win and back to 0 on a loss; the best streak is the largest value the
  counter reaches, 0 when there is no win.
\<close>

fun counter_values :: "bool list \<Rightarrow> int \<Rightarrow> int list" where
  "counter_values [] c = []"
| "counter_values (w # ws) c = (if w then (c + 1) # counter_values ws (c + 1)
                               else 0 # counter_values ws 0)"

definition spec_best_streak :: "bool list \<Rightarrow> int" where
  "spec_best_streak ws = Max (set (0 # counter_values ws 0))"

definition summarize_matches ::
  "(bool \<Rightarrow> int list \<Rightarrow> nat list) \<Rightarrow> match frame \<Rightarrow> string \<Rightarrow> string \<Rightarrow> exn + row" where
  "summarize_matches argsort df steam_id label =
     (let total = int (length (rows df)) in
      bind (column df ''win'' win) (\<lambda>ws.
      bind (column df ''loss'' loss) (\<lambda>ls.
      let wins = sum_bool ws;
          losses = sum_bool ls;
          win_rate = (if total \<noteq> 0 then PyFloat (fmul (fdiv (of_int wins) (of_int total)) 100)
                      else PyInt 0)
      in
      bind (if total \<noteq> 0 then bind (column df ''kills'' kills) (\<lambda>ks. Inr (PyFloat (mean ks)))
            else Inr (PyInt 0)) (\<lambda>avg_k.
      bind (if total \<noteq> 0 then bind (column df ''deaths'' deaths) (\<lambda>ds. Inr (PyFloat (mean ds)))
            else Inr (PyInt 0)) (\<lambda>avg_d.
      bind (if total \<noteq> 0 then bind (column df ''assists'' assists) (\<lambda>as. Inr (PyFloat (mean as)))
            else Inr (PyInt 0)) (\<lambda>avg_a.
      bind (if total \<noteq> 0
            then bind (sort_values argsort df ''start_time'' start_time True) (\<lambda>sorted_df.
                 bind (column sorted_df ''win'' win) (\<lambda>sorted_wins.
                 Inr (streak_loop sorted_wins 0 0)))
            else Inr 0) (\<lambda>best_streak.
      Inr [(''steam_id'', Str steam_id),
           (''label'', Str label),
           (''games'', Num (PyInt total)),
           (''wins'', Num (PyInt wins)),
           (''losses'', Num (PyInt losses)),
           (''win_rate'', Num (py_round1 win_rate)),
           (''avg_k'', Num (np_round1 avg_k)),
           (''avg_d'', Num (np_round1 avg_d)),
           (''avg_a'', Num (np_round1 avg_a)),
           (''best_streak'', Num (PyInt best_streak))])))))))"

text \<open>A match as \<open>fetch_matches\<close> derives it for a player in slot 0, played at time \<open>t\<close>
  and won when \<open>w\<close>; the witnesses use it.\<close>

definition game :: "int \<Rightarrow> bool \<Rightarrow> match" where
  "game t w = with_outcome \<lparr>match_id = t, player_slot = 0, radiant_win = w, start_time = t,
     kills = 1, deaths = 2, assists = 3\<rparr>"

text \<open>The frame has the columns that \<open>summarize_matches\<close> reads.\<close>

definition match_columns :: "string list \<Rightarrow> bool" where
  "match_columns cols =
     list_all (\<lambda>c. c \<in> set cols)
       [''win'', ''loss'', ''kills'', ''deaths'', ''assists'', ''start_time'']"

text \<open>\<^verbatim>\<open>pd.DataFrame(rows)\<close> of a list of dicts that all have the same keys (as the dicts of
  \<^verbatim>\<open>summarize_matches\<close> do); of the empty list it has no columns.\<close>

definition DataFrame :: "row list \<Rightarrow> row frame" where
  "DataFrame rs = \<lparr>columns = (case rs of [] \<Rightarrow> [] | r # _ \<Rightarrow> map fst r), rows = rs\<rparr>"

fun collect_loop ::
  "nat \<Rightarrow> remote \<Rightarrow> (bool \<Rightarrow> int list \<Rightarrow> nat list) \<Rightarrow> int \<Rightarrow> string option \<Rightarrow>
   string list \<Rightarrow> row list \<Rightarrow> string list \<Rightarrow> exn + (row list \<times> string list)" where
  "collect_loop m remote argsort days api_key [] rws errors = Inr (rws, errors)"
| "collect_loop m remote argsort days api_key (sid # sids) rws errors =
     (case steam64_to_account_id m sid of
        None \<Rightarrow>
          collect_loop m remote argsort days api_key sids rws
            (errors @ [''Invalid Steam64 ID: '' @ sid])
      | Some account_id \<Rightarrow>
          (case fetch_matches remote account_id days api_key of
             Inl (HTTPError exc) \<Rightarrow>
               collect_loop m remote argsort days api_key sids rws
                 (errors @ [''HTTP error for '' @ sid @ '': '' @ exc])
           | Inl (RequestException exc) \<Rightarrow>
               collect_loop m remote argsort days api_key sids rws
                 (errors @ [''Network error for '' @ sid @ '': '' @ exc])
           | Inl e \<Rightarrow> Inl e
           | Inr matches \<Rightarrow>
               (case summarize_matches argsort matches sid (''Last '' @ str_int days @ '' days'') of
                  Inl e \<Rightarrow> Inl e
                | Inr s \<Rightarrow> collect_loop m remote argsort days api_key sids (rws @ [s]) errors)))"

definition collect_period_summaries ::
  "nat \<Rightarrow> remote \<Rightarrow> (bool \<Rightarrow> int list \<Rightarrow> nat list) \<Rightarrow> string list \<Rightarrow> int \<Rightarrow> string option \<Rightarrow>
   exn + (row frame \<times> string list)" where
  "collect_period_summaries m remote argsort steam_ids days api_key =
     (case collect_loop m remote argsort days api_key steam_ids [] [] of
        Inl e \<Rightarrow> Inl e
      | Inr (rws, errors) \<Rightarrow> Inr (DataFrame rws, errors))"

section \<open>Ranking\<close>

text \<open>The cell of a row under a column label; a row without the label has \<^verbatim>\<open>NaN\<close> there.\<close>

definition cell_at :: "row \<Rightarrow> string \<Rightarrow> cell" where
  "cell_at r k = (case map_of r k of Some c \<Rightarrow> c | None \<Rightarrow> NaN)"

fun is_str :: "cell \<Rightarrow> bool" where
  "is_str (Str s) = True"
| "is_str c = False"

fun is_num :: "cell \<Rightarrow> bool" where
  "is_num (Num n) = True"
| "is_num c = False"

text \<open>
  \<^verbatim>\<open>sort_values\<close> on a frame of cells: rows whose key is missing go last, in their
  order; the other keys are sorted by \<open>argsort\<close>. Strings and numbers in one key column
  cannot be compared (\<^verbatim>\<open>TypeError\<close>).
\<close>

definition sort_cells ::
  "(bool \<Rightarrow> cell list \<Rightarrow> nat list) \<Rightarrow> row frame \<Rightarrow> string \<Rightarrow> bool \<Rightarrow> exn + row frame" where
  "sort_cells argsort df by ascending =
     (if by \<notin> set (columns df) then Inl (KeyError by)
      else let ks = map (\<lambda>r. cell_at r by) (rows df);
               present = filter (\<lambda>i. ks ! i \<noteq> NaN) [0..<length ks];
               missing = filter (\<lambda>i. ks ! i = NaN) [0..<length ks];
               keys = map (\<lambda>i. ks ! i) present
           in if list_ex is_str keys \<and> list_ex is_num keys then Inl TypeError
              else Inr (df\<lparr>rows := take_rows (rows df)
                                    (take_rows present (argsort ascending keys) @ missing)\<rparr>))"

text \<open>\<^verbatim>\<open>df.head(n)\<close>: the first \<open>n\<close> rows, or all but the last \<open>- n\<close> rows when \<open>n\<close> is
  negative. \<^verbatim>\<open>df[labels]\<close>: the listed columns, \<^verbatim>\<open>KeyError\<close> when one is missing.\<close>

definition head :: "int \<Rightarrow> 'r frame \<Rightarrow> 'r frame" where
  "head n df =
     df\<lparr>rows := (if 0 \<le> n then take (nat n) (rows df)
                 else take (length (rows df) - nat (- n)) (rows df))\<rparr>"

definition select :: "row frame \<Rightarrow> string list \<Rightarrow> exn + row frame" where
  "select df labels =
     (case filter (\<lambda>l. l \<notin> set (columns df)) labels of
        l # ls \<Rightarrow> Inl (KeyError l)
      | [] \<Rightarrow> Inr \<lparr>columns = labels,
                  rows = map (\<lambda>r. map (\<lambda>l. (l, cell_at r l)) labels) (rows df)\<rparr>)"

definition highlight_top_players ::
  "(bool \<Rightarrow> cell list \<Rightarrow> nat list) \<Rightarrow> row frame \<Rightarrow> string \<Rightarrow> int \<Rightarrow> exn + row frame" where
  "highlight_top_players argsort df metric top_n =
     (if empty df then Inr df
      else bind (sort_cells argsort df metric False) (\<lambda>sorted_df.
           select (head top_n sorted_df)
             [''steam_id'', ''win_rate'', ''games'', ''wins'', ''losses'', metric]))"

section \<open>Loss rate\<close>

text \<open>
  The lambda of \<^verbatim>\<open>add_loss_rate\<close> on one row:
  \<^verbatim>\<open>(row["losses"] / row["games"] * 100) if row["games"] else 0\<close>. A missing cell is true
  and makes the quotient \<^verbatim>\<open>NaN\<close>; a string cannot be divided (\<^verbatim>\<open>TypeError\<close>).
\<close>

fun truthy :: "cell \<Rightarrow> bool" where
  "truthy (Str s) = (s \<noteq> [])"
| "truthy (Num n) = (num_val n \<noteq> 0)"
| "truthy NaN = True"

fun percent :: "cell \<Rightarrow> cell \<Rightarrow> exn + cell" where
  "percent (Num l) (Num g) = Inr (Num (PyFloat (fmul (fdiv (num_val l) (num_val g)) 100)))"
| "percent (Str s) g = Inl TypeError"
| "percent l (Str s) = Inl TypeError"
| "percent l g = Inr NaN"

definition loss_rate_row :: "string list \<Rightarrow> row \<Rightarrow> exn + cell" where
  "loss_rate_row labels r =
     (if ''games'' \<notin> set labels then Inl (KeyError ''games'')
      else if truthy (cell_at r ''games'')
      then (if ''losses'' \<notin> set labels then Inl (KeyError ''losses'')
            else percent (cell_at r ''losses'') (cell_at r ''games''))
      else Inr (Num (PyInt 0)))"

text \<open>\<^verbatim>\<open>df.apply(f, axis=1)\<close>: \<open>f\<close> on every row in order; the first exception ends it.\<close>

fun apply_rows :: "(row \<Rightarrow> exn + cell) \<Rightarrow> row list \<Rightarrow> exn + cell list" where
  "apply_rows f [] = Inr []"
| "apply_rows f (r # rs) = bind (f r) (\<lambda>v. bind (apply_rows f rs) (\<lambda>vs. Inr (v # vs)))"

text \<open>\<^verbatim>\<open>df[name] = values\<close>: the column is replaced where it stands, or added last.\<close>

fun set_cell :: "string \<Rightarrow> cell \<Rightarrow> row \<Rightarrow> row" where
  "set_cell k v [] = [(k, v)]"
| "set_cell k v ((k', v') # r) = (if k = k' then (k, v) # r else (k', v') # set_cell k v r)"

definition set_column :: "row frame \<Rightarrow> string \<Rightarrow> cell list \<Rightarrow> row frame" where
  "set_column df name vals =
     \<lparr>columns = (if name \<in> set (columns df) then columns df else columns df @ [name]),
      rows = map (\<lambda>(r, v). set_cell name v r) (zip (rows df) vals)\<rparr>"

text \<open>
  \<^verbatim>\<open>add_loss_rate\<close> returns an object, and the claim about it is about which object. The
  frames live in a store; a reference is a position in it. \<^verbatim>\<open>df.copy()\<close> puts a copy at
  a new position, and the assignment of the column changes the frame at that position.
\<close>

type_synonym store = "row frame list"

definition add_loss_rate :: "store \<Rightarrow> nat \<Rightarrow> exn + (store \<times> nat)" where
  "add_loss_rate s df =
     (if empty (s ! df) then Inr (s, df)
      else let enriched = length s;
               s1 = s @ [s ! df]
           in bind (apply_rows (loss_rate_row (columns (s1 ! enriched))) (rows (s1 ! enriched)))
                (\<lambda>vals. Inr (s1[enriched := set_column (s1 ! enriched) ''loss_rate'' vals],
                             enriched)))"

section \<open>Facts about identifiers\<close>

lemma isdecimal_not_special:
  assumes "isdecimal c"
  shows "\<not> int_space c" "c \<noteq> CHR ''-''" "c \<noteq> CHR ''+''" "c \<noteq> CHR ''_''" "literal_char c"
  using assms by (auto simp: isdecimal_def int_space_def literal_char_def)

lemma no_double_underscore_decimal:
  "list_all isdecimal s \<Longrightarrow> no_double_underscore s"
  by (induction s rule: no_double_underscore.induct) (auto dest: isdecimal_not_special)

lemma py_int_decimal:
  assumes "s \<noteq> []" and "list_all isdecimal s"
  shows "py_int m s =
           (if 0 < m \<and> 640 < length s \<and> m < length s then Inl ValueError
            else Inr (digits_val s))"
proof -
  from assms obtain c cs where s: "s = c # cs" and c: "isdecimal c"
    by (cases s) auto
  have all: "\<forall>x\<in>set s. isdecimal x"
    using assms(2) by (simp add: list_all_iff)
  have t: "dropWhile int_space s = s"
    using c by (simp add: s isdecimal_not_special)
  have body: "takeWhile literal_char s = s"
    using all by (auto intro!: takeWhile_eq_all_conv[THEN iffD2] dest: isdecimal_not_special)
  have rest: "dropWhile literal_char s = []"
    using all by (auto dest: isdecimal_not_special)
  have ds: "filter isdecimal s = s"
    using all by simp
  have h: "hd s \<noteq> CHR ''_''" "hd s \<noteq> CHR ''-''" "hd s \<noteq> CHR ''+''"
    using c by (simp_all add: s isdecimal_not_special)
  have l: "last s \<noteq> CHR ''_''"
    using all assms(1) isdecimal_not_special(4) last_in_set by blast
  show ?thesis
    unfolding py_int_def Let_def t
    using h l assms(1) no_double_underscore_decimal[OF assms(2)]
    by (simp add: body rest ds)
qed

lemma normalize_ids_nonempty: "s \<in> set (normalize_ids raw) \<Longrightarrow> s \<noteq> []"
  by (auto simp: normalize_ids_def str_isdigit_def)

lemma py_int_superscript: "py_int m [CHR 0xB2] = Inl ValueError"
  by (simp add: py_int_def int_space_def literal_char_def isdecimal_def)

lemma normalize_ids_example:
  "normalize_ids (''123, abc'' @ [CHR 0x0A] @ ''456'') = [''123'', ''456'']"
  by (simp add: normalize_ids_def replace_char_def strip_def isspace_def str_isdigit_def
      isdigit_def isdecimal_def)

text \<open>
  Claim C7, as amended. For every non-empty string of the decimal digits \<open>0\<close> to \<open>9\<close>
  that is not longer than the interpreter's limit on integer strings (no limit when it
  is 0), and so for every such token that \<open>normalize_ids\<close> returns,
  \<open>steam64_to_account_id\<close> succeeds and returns the decimal value of the string minus
  76561197960265728. A negative result is returned like any other.
\<close>

theorem steam64_to_account_id_decimal:
  assumes "s \<noteq> [] \<or> s \<in> set (normalize_ids raw)"
    and "list_all isdecimal s"
    and "m = 0 \<or> length s \<le> m"
  shows "steam64_to_account_id m s = Some (digits_val s - 76561197960265728)"
proof -
  have "s \<noteq> []"
    using assms(1) normalize_ids_nonempty by blast
  then have "py_int m s = Inr (digits_val s)"
    using py_int_decimal[OF _ assms(2), of m] assms(3) by auto
  then show ?thesis
    by (simp add: steam64_to_account_id_def STEAM_EPOCH_def)
qed

theorem steam64_to_account_id_decimal_witness:
  "steam64_to_account_id 4300 ''76561198355928347'' = Some 395662619
   \<and> steam64_to_account_id 4300 ''5'' = Some (- 76561197960265723)"
  using steam64_to_account_id_decimal[of "''76561198355928347''" "''76561198355928347''" 4300]
    steam64_to_account_id_decimal[of "''5''" "''5''" 4300]
  by (simp add: isdecimal_def digits_val_def digit_val_def)

text \<open>
  Claim C7 as stated fails twice. Under the interpreter's default limit of 4300 digits,
  the string of 4301 digits \<open>1\<close> is not converted (\<open>int\<close> raises \<open>ValueError\<close>). And the
  superscript two, U+00B2, is a token that \<open>normalize_ids\<close> returns and that is not
  converted either.
\<close>

theorem steam64_to_account_id_counterexample:
  "list_all isdecimal (replicate 4301 (CHR ''1''))
   \<and> steam64_to_account_id 4300 (replicate 4301 (CHR ''1'')) = None
   \<and> [CHR 0xB2] \<in> set (normalize_ids [CHR 0xB2])
   \<and> steam64_to_account_id 4300 [CHR 0xB2] = None"
proof -
  have d: "list_all isdecimal (replicate 4301 (CHR ''1''))"
    by (simp add: list_all_iff isdecimal_def)
  have "py_int 4300 (replicate 4301 (CHR ''1'')) = Inl ValueError"
    using py_int_decimal[OF _ d, of 4300] by simp
  moreover have "normalize_ids [CHR 0xB2] = [[CHR 0xB2]]"
    by (simp add: normalize_ids_def replace_char_def strip_def isspace_def str_isdigit_def
        isdigit_def isdecimal_def)
  ultimately show ?thesis
    using d by (simp add: steam64_to_account_id_def py_int_superscript)
qed

text \<open>
  Claim C8 says that \<open>normalize_ids\<close> discards every token that is not made of decimal
  digits only. The code tests \<^verbatim>\<open>isdigit\<close>, which also holds for the superscript digits:
  on the text that is the one character U+00B2 the token is kept, and it is not a decimal
  digit.
\<close>

theorem normalize_ids_keeps_superscript:
  "normalize_ids [CHR 0xB2] = [[CHR 0xB2]] \<and> \<not> isdecimal (CHR 0xB2)"
  by (simp add: normalize_ids_def replace_char_def strip_def isspace_def str_isdigit_def
      isdigit_def isdecimal_def)

section \<open>Facts about matches and summaries\<close>

lemma fetch_matches_Json:
  assumes "remote account_id (request_params days api_key) = Json js"
  shows "fetch_matches remote account_id days api_key =
           Inr \<lparr>columns = (if js = [] then [] else raw_columns @ [''win'', ''loss'']),
                rows = map with_outcome js\<rparr>"
  using assms by (simp add: fetch_matches_def empty_def raw_columns_def)

lemma account_id_example: "steam64_to_account_id 4300 ''76561198355928347'' = Some 395662619"
  by (simp add: steam64_to_account_id_def py_int_def int_space_def literal_char_def
      isdecimal_def digits_val_def digit_val_def STEAM_EPOCH_def)

text \<open>
  Claim C4. When the remote API answers with a list of matches, \<open>fetch_matches\<close> returns a
  frame with one row per match, in order, that keeps \<open>player_slot\<close> and \<open>radiant_win\<close>;
  the derived \<open>win\<close> of every row is \<open>(player_slot < 128) = radiant_win\<close> and its \<open>loss\<close>
  is the negation of its \<open>win\<close>. Slot 0 with a radiant win is a win, slot 128 with a
  radiant win is a loss, slot 129 with a radiant loss is a win.
\<close>

theorem fetch_matches_outcome:
  assumes "remote account_id (request_params days api_key) = Json js"
  shows "\<exists>df. fetch_matches remote account_id days api_key = Inr df
           \<and> map player_slot (rows df) = map player_slot js
           \<and> map radiant_win (rows df) = map radiant_win js
           \<and> map win (rows df) = map (\<lambda>r. (player_slot r < 128) = radiant_win r) js
           \<and> map loss (rows df) = map (\<lambda>m. \<not> win m) (rows df)
           \<and> win (with_outcome (r\<lparr>player_slot := 0, radiant_win := True\<rparr>)) = True
           \<and> win (with_outcome (r\<lparr>player_slot := 128, radiant_win := True\<rparr>)) = False
           \<and> win (with_outcome (r\<lparr>player_slot := 129, radiant_win := False\<rparr>)) = True"
  using fetch_matches_Json[of remote account_id days api_key js] assms
  by (simp add: with_outcome_def Let_def)

theorem fetch_matches_outcome_witness:
  "\<exists>df. fetch_matches (\<lambda>a ps. Json
        [\<lparr>match_id = 1, player_slot = 0, radiant_win = True, start_time = 100,
          kills = 3, deaths = 1, assists = 7\<rparr>,
         \<lparr>match_id = 2, player_slot = 128, radiant_win = True, start_time = 200,
          kills = 0, deaths = 9, assists = 2\<rparr>,
         \<lparr>match_id = 3, player_slot = 129, radiant_win = False, start_time = 300,
          kills = 5, deaths = 5, assists = 5\<rparr>]) 395662619 7 None = Inr df
     \<and> map win (rows df) = [True, False, True]
     \<and> map loss (rows df) = [False, True, False]"
proof -
  let ?js = "[\<lparr>match_id = 1, player_slot = 0, radiant_win = True, start_time = 100,
          kills = 3, deaths = 1, assists = 7\<rparr>,
         \<lparr>match_id = 2, player_slot = 128, radiant_win = True, start_time = 200,
          kills = 0, deaths = 9, assists = 2\<rparr>,
         \<lparr>match_id = 3, player_slot = 129, radiant_win = False, start_time = 300,
          kills = 5, deaths = 5, assists = 5\<rparr>]"
  from fetch_matches_outcome[of "\<lambda>a ps. Json ?js" 395662619 7 None ?js]
  obtain df where f: "fetch_matches (\<lambda>a ps. Json ?js) 395662619 7 None = Inr df"
    and w: "map win (rows df) = map (\<lambda>r. (player_slot r < 128) = radiant_win r) ?js"
    and l: "map loss (rows df) = map (\<lambda>m. \<not> win m) (rows df)"
    by blast
  have w': "map win (rows df) = [True, False, True]"
    using w by simp
  have "map loss (rows df) = map Not (map win (rows df))"
    using l by (simp add: comp_def)
  then have "map loss (rows df) = [False, True, False]"
    unfolding w' by simp
  with f w' show ?thesis
    by (intro exI[of _ df]) simp
qed

text \<open>
  Claim C1 says that \<open>summarize_matches\<close> returns zeros on the empty frame that
  \<open>fetch_matches\<close> yields when the remote reports no match. That frame has no columns
  (\<open>fetch_matches\<close> returns before it adds \<^verbatim>\<open>win\<close> and \<^verbatim>\<open>loss\<close>), and \<open>summarize_matches\<close>
  reads \<^verbatim>\<open>df["win"]\<close> before it looks at the number of rows: it raises \<^verbatim>\<open>KeyError\<close>.
\<close>

theorem summarize_matches_no_matches:
  "fetch_matches (\<lambda>a ps. Json []) account_id days api_key = Inr \<lparr>columns = [], rows = []\<rparr>
   \<and> summarize_matches argsort \<lparr>columns = [], rows = []\<rparr> steam_id label = Inl (KeyError ''win'')"
  by (simp add: fetch_matches_def empty_def summarize_matches_def column_def bind_def)

text \<open>On a frame with no rows that does have the columns \<^verbatim>\<open>win\<close> and \<^verbatim>\<open>loss\<close>, the
  summary is the one the claim describes.\<close>

lemma summarize_matches_empty_with_columns:
  assumes "''win'' \<in> set cols" "''loss'' \<in> set cols"
  shows "summarize_matches argsort \<lparr>columns = cols, rows = []\<rparr> steam_id label =
     Inr [(''steam_id'', Str steam_id), (''label'', Str label), (''games'', Num (PyInt 0)),
          (''wins'', Num (PyInt 0)), (''losses'', Num (PyInt 0)), (''win_rate'', Num (PyInt 0)),
          (''avg_k'', Num (PyInt 0)), (''avg_d'', Num (PyInt 0)), (''avg_a'', Num (PyInt 0)),
          (''best_streak'', Num (PyInt 0))]"
  using assms by (simp add: summarize_matches_def column_def bind_def sum_bool_def)

text \<open>
  Claim C2 says that every identifier yields a summary or an error entry. For an
  identifier whose player has no match in the window the \<^verbatim>\<open>KeyError\<close> of
  \<open>summarize_matches\<close> is not caught by \<open>collect_period_summaries\<close>: the whole call raises,
  nothing is returned for this identifier or for the ones after it.
\<close>

theorem collect_period_summaries_no_matches:
  "collect_period_summaries 4300 (\<lambda>a ps. Json []) argsort [''76561198355928347''] 7 None
     = Inl (KeyError ''win'')
   \<and> collect_period_summaries 4300 (\<lambda>a ps. Json []) argsort
       [''76561198355928347'', ''bad_id''] 7 None = Inl (KeyError ''win'')"
proof -
  have a: "steam64_to_account_id 4300 ''76561198355928347'' = Some 395662619"
    by (rule account_id_example)
  show ?thesis
    by (simp add: collect_period_summaries_def a fetch_matches_def empty_def
        summarize_matches_def column_def bind_def)
qed

lemma Max_insert_max:
  "finite S \<Longrightarrow> Max (insert (max a b) S) = Max (insert a (insert b S))" for a :: int
  by (cases "S = {}") (simp_all add: max.assoc)

text \<open>The loop computes the largest counter value.\<close>

lemma streak_loop_Max:
  "0 \<le> b \<Longrightarrow> streak_loop ws c b = Max (set (b # counter_values ws c))"
proof (induction ws arbitrary: c b)
  case Nil
  then show ?case by simp
next
  case (Cons w ws)
  show ?case
  proof (cases w)
    case True
    have "streak_loop (w # ws) c b = Max (set (max b (c + 1) # counter_values ws (c + 1)))"
      using True Cons.IH[of "max b (c + 1)" "c + 1"] Cons.prems by simp
    also have "\<dots> = Max (insert b (insert (c + 1) (set (counter_values ws (c + 1)))))"
      using Max_insert_max[of "set (counter_values ws (c + 1))" b "c + 1"] by simp
    finally show ?thesis using True by simp
  next
    case False
    have "streak_loop (w # ws) c b = Max (set (b # counter_values ws 0))"
      using False Cons.IH[of b 0] Cons.prems by simp
    also have "\<dots> = Max (insert (max b 0) (set (counter_values ws 0)))"
      using Cons.prems by (simp add: max.absorb1)
    also have "\<dots> = Max (insert b (insert 0 (set (counter_values ws 0))))"
      by (rule Max_insert_max) simp
    finally show ?thesis using False by simp
  qed
qed

lemma streak_loop_spec: "streak_loop ws 0 0 = spec_best_streak ws"
  by (simp add: streak_loop_Max spec_best_streak_def)

lemma sum_bool_nonneg: "0 \<le> sum_bool ws"
  by (induction ws) (auto simp: sum_bool_def)

lemma sum_bool_Cons: "sum_bool (w # ws) = of_bool w + sum_bool ws"
  by (simp add: sum_bool_def)

lemma streak_loop_le: "0 \<le> c \<Longrightarrow> streak_loop ws c b \<le> max b (c + sum_bool ws)"
proof (induction ws arbitrary: c b)
  case Nil
  then show ?case by simp
next
  case (Cons w ws)
  show ?case
  proof (cases w)
    case True
    have "streak_loop ws (c + 1) (max b (c + 1)) \<le> max (max b (c + 1)) (c + 1 + sum_bool ws)"
      using Cons.IH[of "c + 1" "max b (c + 1)"] Cons.prems by simp
    also have "\<dots> \<le> max b (c + sum_bool (w # ws))"
      using True sum_bool_nonneg[of ws] by (auto simp: sum_bool_Cons max_def)
    finally show ?thesis using True by simp
  next
    case False
    have "streak_loop ws 0 b \<le> max b (0 + sum_bool ws)"
      using Cons.IH[of 0 b] by simp
    also have "\<dots> \<le> max b (c + sum_bool (w # ws))"
      using False Cons.prems by (simp add: sum_bool_Cons)
    finally show ?thesis using False by simp
  qed
qed

lemma streak_loop_ge: "b \<le> streak_loop ws c b"
proof (induction ws arbitrary: c b)
  case Nil
  then show ?case by simp
next
  case (Cons w ws)
  show ?case
  proof (cases w)
    case True
    have "b \<le> max b (c + 1)" by simp
    also have "\<dots> \<le> streak_loop ws (c + 1) (max b (c + 1))" by (rule Cons.IH)
    finally show ?thesis using True by simp
  next
    case False
    then show ?thesis using Cons.IH[of b 0] by simp
  qed
qed

lemma take_rows_mset:
  assumes "mset idx = mset [0..<length xs]"
  shows "mset (take_rows xs idx) = mset xs"
proof -
  have "mset (take_rows xs idx) = image_mset (\<lambda>i. xs ! i) (mset idx)"
    by (simp add: take_rows_def)
  also have "\<dots> = mset (map (\<lambda>i. xs ! i) [0..<length xs])"
    by (simp add: assms)
  also have "\<dots> = mset xs"
    by (simp add: map_nth)
  finally show ?thesis .
qed

lemma sum_bool_mset: "mset xs = mset ys \<Longrightarrow> sum_bool xs = sum_bool ys"
  unfolding sum_bool_def by (metis mset_map sum_mset_sum_list)

text \<open>The summary of a frame that has rows and the columns.\<close>

lemma summarize_matches_rows:
  assumes "match_columns (columns df)" and "rows df \<noteq> []"
  shows "summarize_matches argsort df steam_id label =
     Inr [(''steam_id'', Str steam_id),
          (''label'', Str label),
          (''games'', Num (PyInt (int (length (rows df))))),
          (''wins'', Num (PyInt (sum_bool (map win (rows df))))),
          (''losses'', Num (PyInt (sum_bool (map loss (rows df))))),
          (''win_rate'', Num (py_round1 (PyFloat (fmul (fdiv (of_int (sum_bool (map win (rows df))))
                                  (of_int (int (length (rows df))))) 100)))),
          (''avg_k'', Num (np_round1 (PyFloat (mean (map kills (rows df)))))),
          (''avg_d'', Num (np_round1 (PyFloat (mean (map deaths (rows df)))))),
          (''avg_a'', Num (np_round1 (PyFloat (mean (map assists (rows df)))))),
          (''best_streak'', Num (PyInt (streak_loop
              (map win (take_rows (rows df) (argsort True (map start_time (rows df))))) 0 0)))]"
  using assms
  by (simp add: summarize_matches_def match_columns_def column_def bind_def sort_values_def Let_def)

lemma take_rows_keys:
  assumes "mset idx = mset [0..<length xs]"
  shows "map f (take_rows xs idx) = map (\<lambda>i. map f xs ! i) idx"
proof -
  have "set idx = {0..<length xs}"
    using assms by (metis mset_eq_setD set_upt)
  then show ?thesis
    by (auto simp: take_rows_def)
qed

text \<open>
  Claim C3. On a frame that has rows (and the columns), \<open>summarize_matches\<close> returns a
  summary whose \<open>best_streak\<close> is the largest value of the specification's counter over
  the \<open>win\<close> column of the rows in the order in which \<open>sort_values\<close> puts them for the
  key \<open>start_time\<close>, ascending. When the positions that the sort returns are a
  permutation that sorts the keys, these rows are the frame's rows, ascending by start
  time. The results win, win, loss, win, win, win, loss give 3.
\<close>

theorem summarize_matches_best_streak:
  assumes "match_columns (columns df)" and "rows df \<noteq> []"
  shows "\<exists>s. summarize_matches argsort df steam_id label = Inr s
     \<and> cell_at s ''best_streak'' = Num (PyInt (spec_best_streak
          (map win (take_rows (rows df) (argsort True (map start_time (rows df)))))))
     \<and> (mset (argsort True (map start_time (rows df))) = mset [0..<length (rows df)]
          \<and> sorted (map (\<lambda>i. map start_time (rows df) ! i) (argsort True (map start_time (rows df))))
        \<longrightarrow> mset (take_rows (rows df) (argsort True (map start_time (rows df)))) = mset (rows df)
          \<and> sorted (map start_time (take_rows (rows df) (argsort True (map start_time (rows df))))))
     \<and> streak_loop [True, True, False, True, True, True, False] 0 0 = 3
     \<and> spec_best_streak [True, True, False, True, True, True, False] = 3"
proof -
  have "spec_best_streak [True, True, False, True, True, True, False] = 3"
    by (simp add: spec_best_streak_def)
  moreover have "streak_loop [True, True, False, True, True, True, False] 0 0 = 3"
    by simp
  ultimately show ?thesis
    using summarize_matches_rows[OF assms, of argsort steam_id label]
    by (auto simp: cell_at_def streak_loop_spec take_rows_mset take_rows_keys)
qed


lemma game_simps: "win (game t w) = w" "loss (game t w) = (\<not> w)" "start_time (game t w) = t"
  by (simp_all add: game_def with_outcome_def)

theorem summarize_matches_best_streak_witness:
  "\<exists>s. summarize_matches (\<lambda>ascending ks. [1, 2, 0, 3, 5, 6, 4])
        \<lparr>columns = raw_columns @ [''win'', ''loss''],
         rows = [game 30 False, game 10 True, game 20 True, game 40 True, game 70 False,
                 game 50 True, game 60 True]\<rparr> ''76561198355928347'' ''Last 7 days'' = Inr s
     \<and> cell_at s ''best_streak'' = Num (PyInt 3)
     \<and> mset [1, 2, 0, 3, 5, 6, 4] = mset [0..<7]
     \<and> map start_time (take_rows [game 30 False, game 10 True, game 20 True, game 40 True,
          game 70 False, game 50 True, game 60 True] [1, 2, 0, 3, 5, 6, 4])
        = [10, 20, 30, 40, 50, 60, 70]"
proof -
  let ?df = "\<lparr>columns = raw_columns @ [''win'', ''loss''],
         rows = [game 30 False, game 10 True, game 20 True, game 40 True, game 70 False,
                 game 50 True, game 60 True]\<rparr>"
  have c: "match_columns (columns ?df)"
    by (simp add: match_columns_def raw_columns_def)
  have r: "rows ?df \<noteq> []"
    by simp
  have w: "map win (take_rows (rows ?df) [1, 2, 0, 3, 5, 6, 4])
          = [True, True, False, True, True, True, False]"
    by (simp add: take_rows_def game_simps)
  have t: "map start_time (take_rows (rows ?df) [1, 2, 0, 3, 5, 6, 4])
          = [10, 20, 30, 40, 50, 60, 70]"
    by (simp add: take_rows_def game_simps)
  have p: "mset [1, 2, 0, 3, 5, 6, 4] = mset [0..<7::nat]"
    by (simp add: numeral_eq_Suc)
  show ?thesis
    using summarize_matches_best_streak[OF c r, of "\<lambda>ascending ks. [1, 2, 0, 3, 5, 6, 4]"
        "''76561198355928347''" "''Last 7 days''"] w t p
    by auto
qed

lemma wins_plus_losses:
  "list_all (\<lambda>r. loss r = (\<not> win r)) rs
   \<Longrightarrow> sum_bool (map win rs) + sum_bool (map loss rs) = int (length rs)"
  by (induction rs) (auto simp: sum_bool_def)

text \<open>
  Claim C10. On a frame that has rows (and the columns), whose rows carry the derived
  attributes (\<open>loss\<close> is the negation of \<open>win\<close>), and whose sort returns a permutation of
  the positions, the summary has \<open>wins + losses = games\<close> and \<open>0 \<le> best_streak \<le> wins\<close>.
\<close>

theorem summarize_matches_counts:
  assumes "match_columns (columns df)" and "rows df \<noteq> []"
    and "list_all (\<lambda>r. loss r = (\<not> win r)) (rows df)"
    and "mset (argsort True (map start_time (rows df))) = mset [0..<length (rows df)]"
  shows "\<exists>s w l b. summarize_matches argsort df steam_id label = Inr s
     \<and> cell_at s ''games'' = Num (PyInt (int (length (rows df))))
     \<and> cell_at s ''wins'' = Num (PyInt w)
     \<and> cell_at s ''losses'' = Num (PyInt l)
     \<and> cell_at s ''best_streak'' = Num (PyInt b)
     \<and> w + l = int (length (rows df)) \<and> 0 \<le> b \<and> b \<le> w"
proof -
  let ?sorted = "take_rows (rows df) (argsort True (map start_time (rows df)))"
  let ?b = "streak_loop (map win ?sorted) 0 0"
  have "mset (map win ?sorted) = mset (map win (rows df))"
    using take_rows_mset[OF assms(4)] by (metis mset_map)
  then have "sum_bool (map win ?sorted) = sum_bool (map win (rows df))"
    by (rule sum_bool_mset)
  then have "?b \<le> sum_bool (map win (rows df))"
    using streak_loop_le[of 0 "map win ?sorted" 0] sum_bool_nonneg[of "map win (rows df)"]
    by simp
  moreover have "0 \<le> ?b"
    by (rule streak_loop_ge)
  ultimately show ?thesis
    using summarize_matches_rows[OF assms(1,2), of argsort steam_id label]
      wins_plus_losses[OF assms(3)]
    by (simp add: cell_at_def)
qed


theorem summarize_matches_counts_witness:
  "\<exists>s w l b. summarize_matches (\<lambda>ascending ks. [1, 2, 0, 3, 5, 6, 4])
        \<lparr>columns = raw_columns @ [''win'', ''loss''],
         rows = [game 30 False, game 10 True, game 20 True, game 40 True, game 70 False,
                 game 50 True, game 60 True]\<rparr> ''76561198355928347'' ''Last 7 days'' = Inr s
     \<and> cell_at s ''games'' = Num (PyInt 7)
     \<and> cell_at s ''wins'' = Num (PyInt w)
     \<and> cell_at s ''losses'' = Num (PyInt l)
     \<and> cell_at s ''best_streak'' = Num (PyInt b)
     \<and> w + l = 7 \<and> 0 \<le> b \<and> b \<le> w"
proof -
  let ?df = "\<lparr>columns = raw_columns @ [''win'', ''loss''],
         rows = [game 30 False, game 10 True, game 20 True, game 40 True, game 70 False,
                 game 50 True, game 60 True]\<rparr>"
  have c: "match_columns (columns ?df)"
    by (simp add: match_columns_def raw_columns_def)
  have r: "rows ?df \<noteq> []"
    by simp
  have d: "list_all (\<lambda>r. loss r = (\<not> win r)) (rows ?df)"
    by (simp add: game_simps)
  have p: "mset ((\<lambda>ascending ks. [1, 2, 0, 3, 5, 6, 4]) True (map start_time (rows ?df)))
             = mset [0..<length (rows ?df)]"
    by (simp add: numeral_eq_Suc)
  show ?thesis
    using summarize_matches_counts[OF c r d p, of "''76561198355928347''" "''Last 7 days''"]
    by simp
qed

end
